theory Spec2Isabelle
  imports Main "HOL-Library.Sublist"
begin

section \<open>Strings\<close>

text \<open>
  Strings are byte lists. Go's \<^verbatim>\<open>strings.ToLower\<close> and the case-insensitive flag of
  the regular expression in the shell script change more than the 26 ASCII capitals on
  Unicode text, but every keyword searched for below is made of ASCII letters other than
  \<^verbatim>\<open>i\<close>, \<^verbatim>\<open>k\<close> and \<^verbatim>\<open>s\<close> (the only ASCII letters some non-ASCII code point folds to),
  so the search for these keywords only depends on the ASCII folding modelled here.
\<close>

definition to_lower_char :: "char \<Rightarrow> char" where
  "to_lower_char c =
     (case map_of (zip ''ABCDEFGHIJKLMNOPQRSTUVWXYZ'' ''abcdefghijklmnopqrstuvwxyz'') c of
        Some l \<Rightarrow> l
      | None \<Rightarrow> c)"

definition ToLower :: "string \<Rightarrow> string" where
  "ToLower s = map to_lower_char s"

text \<open>\<^verbatim>\<open>strings.Contains(s, substr)\<close>: \<open>substr\<close> occurs in \<open>s\<close> as a contiguous run.\<close>

definition Contains :: "string \<Rightarrow> string \<Rightarrow> bool" where
  "Contains s substr = sublist substr s"

text \<open>\<^verbatim>\<open>strings.Join(elems, sep)\<close>.\<close>

fun Join :: "string list \<Rightarrow> string \<Rightarrow> string" where
  "Join [] sep = []"
| "Join [x] sep = x"
| "Join (x # y # ys) sep = x @ sep @ Join (y # ys) sep"

definition newline :: string where
  "newline = [CHR 0x0A]"

section \<open>Package upstream: release lookup of the command-line tool\<close>

text \<open>
  The fields of \<^verbatim>\<open>github.RepositoryRelease\<close> and \<^verbatim>\<open>github.ReleaseAsset\<close> that the
  package reads. They are pointers in the client library: \<open>None\<close> is the nil pointer, and
  the getters \<^verbatim>\<open>GetName\<close>, \<^verbatim>\<open>GetBrowserDownloadURL\<close>, \<^verbatim>\<open>GetTagName\<close> turn nil into
  the empty string.
\<close>

record ReleaseAsset =
  Name :: "string option"
  BrowserDownloadURL :: "string option"

record RepositoryRelease =
  TagName :: "string option"
  Assets :: "ReleaseAsset list"

definition GetName :: "ReleaseAsset \<Rightarrow> string" where
  "GetName a = (case Name a of None \<Rightarrow> [] | Some n \<Rightarrow> n)"

definition GetBrowserDownloadURL :: "ReleaseAsset \<Rightarrow> string" where
  "GetBrowserDownloadURL a = (case BrowserDownloadURL a of None \<Rightarrow> [] | Some u \<Rightarrow> u)"

definition GetTagName :: "RepositoryRelease \<Rightarrow> string" where
  "GetTagName rel = (case TagName rel of None \<Rightarrow> [] | Some t \<Rightarrow> t)"

record ChartRelease =
  Owner :: string
  Repo :: string
  Version :: string
  URL :: string

definition chart_keywords :: "string list" where
  "chart_keywords = [''helm'', ''chart'', ''.tgz'', ''tar.gz'']"

text \<open>The inner loop of \<^verbatim>\<open>findChartAsset\<close>: does some keyword occur in the lowered name?\<close>

fun matches_keyword :: "string \<Rightarrow> string list \<Rightarrow> bool" where
  "matches_keyword name [] = False"
| "matches_keyword name (keyword # ks) =
     (if Contains (ToLower name) keyword then True else matches_keyword name ks)"

text \<open>The outer loop over \<^verbatim>\<open>rel.Assets\<close>, returning at the first match.\<close>

fun findChartAsset_loop :: "ReleaseAsset list \<Rightarrow> string" where
  "findChartAsset_loop [] = []"
| "findChartAsset_loop (asset # rest) =
     (if matches_keyword (GetName asset) chart_keywords then GetBrowserDownloadURL asset
      else findChartAsset_loop rest)"

definition findChartAsset :: "RepositoryRelease \<Rightarrow> string" where
  "findChartAsset rel = findChartAsset_loop (Assets rel)"

text \<open>
  \<^verbatim>\<open>client.Repositories.GetLatestRelease\<close> is the remote call: its outcome for an owner
  and a repository is given by the environment, \<open>Inl\<close> the error text.
\<close>

type_synonym github = "string \<Rightarrow> string \<Rightarrow> string + RepositoryRelease"

definition FetchLatestRelease :: "github \<Rightarrow> string \<Rightarrow> string \<Rightarrow> string + ChartRelease" where
  "FetchLatestRelease client owner repo =
     (case client owner repo of
        Inl err \<Rightarrow>
          Inl (''failed to fetch latest release for '' @ owner @ ''/'' @ repo @ '': '' @ err)
      | Inr rel \<Rightarrow>
          (let url = findChartAsset rel in
           if url = [] then Inl (''no chart asset found for '' @ owner @ ''/'' @ repo)
           else Inr \<lparr>Owner = owner, Repo = repo, Version = GetTagName rel, URL = url\<rparr>))"

definition upstreams :: "(string \<times> string) list" where
  "upstreams =
     [(''envoyproxy'', ''gateway''),
      (''envoyproxy'', ''ai-gateway-helm''),
      (''envoyproxy'', ''ai-gateway-crds-helm''),
      (''envoyproxy'', ''ai-gateway'')]"

text \<open>The loop of \<^verbatim>\<open>GetUpstreamCharts\<close>, with its two accumulators.\<close>

fun GetUpstreamCharts_loop ::
  "github \<Rightarrow> (string \<times> string) list \<Rightarrow> ChartRelease list \<Rightarrow> string list \<Rightarrow>
   ChartRelease list \<times> string list" where
  "GetUpstreamCharts_loop client [] charts errors = (charts, errors)"
| "GetUpstreamCharts_loop client ((owner, repo) # ups) charts errors =
     (case FetchLatestRelease client owner repo of
        Inl err \<Rightarrow> GetUpstreamCharts_loop client ups charts (errors @ [err])
      | Inr chart \<Rightarrow> GetUpstreamCharts_loop client ups (charts @ [chart]) errors)"

text \<open>The second component is the returned \<^verbatim>\<open>error\<close>; \<open>None\<close> is nil.\<close>

definition GetUpstreamCharts :: "github \<Rightarrow> ChartRelease list \<times> string option" where
  "GetUpstreamCharts client =
     (case GetUpstreamCharts_loop client upstreams [] [] of
        (charts, errors) \<Rightarrow>
          if length errors > 0
          then (charts, Some (''errors fetching upstream charts:'' @ newline @ Join errors newline))
          else (charts, None))"

section \<open>The shell scripts that stage upstream charts\<close>

text \<open>
  Two scripts download the upstream charts: \<^verbatim>\<open>scripts/merge-charts.sh\<close> (functions
  \<^verbatim>\<open>find_helm_chart_asset\<close>, \<^verbatim>\<open>download_file\<close>, \<^verbatim>\<open>process_upstream\<close>, \<^verbatim>\<open>main\<close>) and
  a second script with the same purpose (functions \<^verbatim>\<open>get_download_url\<close>,
  \<^verbatim>\<open>download_file\<close>, \<^verbatim>\<open>process_repo\<close>, \<^verbatim>\<open>main\<close>); where both scripts use one name, the
  second script's function carries the suffix \<open>_2\<close> here.

  What the model takes from the environment:
  \<^item> A shell variable that holds a JSON document is a record of the text and of what
    \<^verbatim>\<open>jq\<close> reads from it: \<open>parsed = None\<close> when the text holds no JSON value (the
    \<^verbatim>\<open>jq\<close> queries then print nothing), and a field is \<open>None\<close> when it is missing or
    \<^verbatim>\<open>null\<close> in the document.
  \<^item> \<^verbatim>\<open>curl\<close> is the network: the outcome of each invocation is an input.
  \<^item> Files are a map from paths to contents.
  \<^item> The functions \<^verbatim>\<open>log\<close>, \<^verbatim>\<open>info\<close>, \<^verbatim>\<open>warn\<close> write a log line to the log file and
    to the standard output. The model leaves the log lines out, also where a command
    substitution reads the output of a function that logs: a function is modelled by the
    value it prints as its result with \<^verbatim>\<open>echo\<close> or \<^verbatim>\<open>printf\<close>, its exit status and its
    effect on the files. In \<^verbatim>\<open>scripts/merge-charts.sh\<close> the function \<^verbatim>\<open>error\<close> logs and
    runs \<^verbatim>\<open>exit 1\<close>; in the second script it only logs and the caller runs
    \<^verbatim>\<open>return 1\<close>. Both are the \<open>Inl\<close> results below.
  \<^item> Addresses and names are single lines.
\<close>

record asset =
  asset_name :: "string option"
  asset_browser_download_url :: "string option"

record release =
  release_tag_name :: "string option"
  release_assets :: "asset list"
  release_repository_full_name :: "string option"

record json =
  raw :: string
  parsed :: "release option"

type_synonym files = "string \<rightharpoonup> string"

datatype sh_error =
    GitHub_API_returned_HTTP string
  | No_tag_found_in_release
  | Could_not_determine_download_URL
  | Download_file_not_created
  | Downloaded_file_is_empty
  | Failed_to_download_after_attempts
  | Fetch_failed
  | No_valid_tag_name
  | No_tag_name_in_API_response
  | Cannot_determine_repository_name
  | No_valid_download_URL

text \<open>How \<^verbatim>\<open>jq -r\<close> prints a field that is a string or \<^verbatim>\<open>null\<close>.\<close>

definition jq_r :: "string option \<Rightarrow> string" where
  "jq_r v = (case v of None \<Rightarrow> ''null'' | Some s \<Rightarrow> s)"

text \<open>\<^verbatim>\<open>head -n1\<close> inside a command substitution: the first line, or nothing.\<close>

definition head_n1 :: "string list \<Rightarrow> string" where
  "head_n1 ls = (case ls of [] \<Rightarrow> [] | l # _ \<Rightarrow> l)"

text \<open>\<^verbatim>\<open>jq -r '.tag_name'\<close>\<close>

definition jq_tag_name :: "json \<Rightarrow> string" where
  "jq_tag_name j = (case parsed j of None \<Rightarrow> [] | Some r \<Rightarrow> jq_r (release_tag_name r))"

text \<open>\<^verbatim>\<open>jq -r '.tag_name // empty'\<close>\<close>

definition jq_tag_name_or_empty :: "json \<Rightarrow> string" where
  "jq_tag_name_or_empty j =
     (case parsed j of None \<Rightarrow> []
      | Some r \<Rightarrow> (case release_tag_name r of None \<Rightarrow> [] | Some t \<Rightarrow> t))"

text \<open>\<^verbatim>\<open>jq -r '.repository.full_name // empty'\<close>\<close>

definition jq_repository_full_name_or_empty :: "json \<Rightarrow> string" where
  "jq_repository_full_name_or_empty j =
     (case parsed j of None \<Rightarrow> []
      | Some r \<Rightarrow> (case release_repository_full_name r of None \<Rightarrow> [] | Some t \<Rightarrow> t))"

subsection \<open>scripts/merge-charts.sh\<close>

text \<open>
  The regular expression \<^verbatim>\<open>test("helm|chart|tgz|tar\\.gz"; "i")\<close> of
  \<^verbatim>\<open>find_helm_chart_asset\<close>: four alternatives, unanchored, case-insensitive. The third
  alternative is \<^verbatim>\<open>tgz\<close>, without the dot of the keyword \<^verbatim>\<open>.tgz\<close> that the array
  \<^verbatim>\<open>asset_keywords\<close> of the same function declares (the array is not used).
\<close>

definition asset_keywords :: "string list" where
  "asset_keywords = [''helm'', ''chart'', ''.tgz'', ''tar.gz'']"

definition test_helm_chart_regex :: "string \<Rightarrow> bool" where
  "test_helm_chart_regex n =
     (Contains (ToLower n) ''helm'' \<or> Contains (ToLower n) ''chart'' \<or>
      Contains (ToLower n) ''tgz'' \<or> Contains (ToLower n) ''tar.gz'')"

text \<open>
  The lines printed by
  \<^verbatim>\<open>jq -r '.assets[]? | select(.name | test(...)) | .browser_download_url'\<close>:
  one per selected asset, in the order of the document. \<^verbatim>\<open>test\<close> on a name that is
  not a string is an error that ends \<^verbatim>\<open>jq\<close>; what it printed before remains.
\<close>

fun jq_select_chart_urls :: "asset list \<Rightarrow> string list" where
  "jq_select_chart_urls [] = []"
| "jq_select_chart_urls (a # rest) =
     (case asset_name a of
        None \<Rightarrow> []
      | Some n \<Rightarrow>
          (if test_helm_chart_regex n
           then jq_r (asset_browser_download_url a) # jq_select_chart_urls rest
           else jq_select_chart_urls rest))"

definition jq_chart_urls :: "json \<Rightarrow> string list" where
  "jq_chart_urls j =
     (case parsed j of None \<Rightarrow> [] | Some r \<Rightarrow> jq_select_chart_urls (release_assets r))"

text \<open>
  \<^verbatim>\<open>find_helm_chart_asset\<close> is called as
  \<^verbatim>\<open>find_helm_chart_asset "$release_json" "$owner" "$repo"\<close>. Its arguments are named by
  their positions here because the body reads them by position: \<open>p1\<close> is \<^verbatim>\<open>$1\<close> (the
  release document), \<open>p2\<close> is \<^verbatim>\<open>$2\<close> (the owner) and \<open>p3\<close> is \<^verbatim>\<open>$3\<close> (the repository).
  The fallback address of line 101 is built from \<^verbatim>\<open>$1\<close> and \<^verbatim>\<open>$2\<close>.
\<close>

definition find_helm_chart_asset :: "json \<Rightarrow> string \<Rightarrow> string \<Rightarrow> sh_error + string" where
  "find_helm_chart_asset p1 p2 p3 =
     (let release_json = p1;
          url = head_n1 (jq_chart_urls release_json)
      in if url = [] \<or> url = ''null'' then
           (let tag = jq_tag_name release_json
            in if tag = [] \<or> tag = ''null'' then Inl No_tag_found_in_release
               else Inr (''https://github.com/'' @ raw p1 @ ''/'' @ p2 @
                         ''/archive/refs/tags/'' @ tag @ ''.tar.gz''))
         else Inr url)"

text \<open>
  \<^verbatim>\<open>curl -f -o "$output_file" "$url"\<close>: the transfer succeeds and the body is written to
  the output file; or the server answers with an error status (400 and above), which
  \<^verbatim>\<open>-f\<close> turns into a failure before anything is written; or the transfer fails for
  another reason, possibly after part of the body has been written.
\<close>

datatype curl_result =
    Curl_ok string
  | Curl_http_error nat
  | Curl_transfer_error "string option"

fun curl_succeeded :: "curl_result \<Rightarrow> bool" where
  "curl_succeeded (Curl_ok body) = True"
| "curl_succeeded (Curl_http_error status) = False"
| "curl_succeeded (Curl_transfer_error part) = False"

fun curl_output :: "curl_result \<Rightarrow> string \<Rightarrow> files \<Rightarrow> files" where
  "curl_output (Curl_ok body) output_file fs = fs(output_file \<mapsto> body)"
| "curl_output (Curl_http_error status) output_file fs = fs"
| "curl_output (Curl_transfer_error None) output_file fs = fs"
| "curl_output (Curl_transfer_error (Some part)) output_file fs = fs(output_file \<mapsto> part)"

text \<open>\<^verbatim>\<open>validate_download\<close>; the check of the MIME type only logs a warning.\<close>

definition validate_download :: "string \<Rightarrow> files \<Rightarrow> sh_error + unit" where
  "validate_download output_file fs =
     (case fs output_file of
        None \<Rightarrow> Inl Download_file_not_created
      | Some content \<Rightarrow>
          if length content \<le> 0 then Inl Downloaded_file_is_empty else Inr ())"

text \<open>
  The result of a download: how it ended, how many times \<^verbatim>\<open>curl\<close> was run, how many
  times the script slept between attempts, and the files afterwards.
\<close>

record download =
  outcome :: "sh_error + unit"
  attempts :: nat
  sleeps :: nat
  files_after :: files

definition max_retries :: nat where
  "max_retries = 3"

text \<open>
  The \<^verbatim>\<open>while\<close> loop of \<^verbatim>\<open>download_file\<close>; \<open>curl k\<close> is the outcome of the invocation
  made when \<^verbatim>\<open>retry_count\<close> is \<open>k\<close>.
\<close>

function download_file_loop ::
  "(nat \<Rightarrow> curl_result) \<Rightarrow> string \<Rightarrow> nat \<Rightarrow> nat \<Rightarrow> files \<Rightarrow> download" where
  "download_file_loop curl output_file retry_count slept fs =
     (if retry_count < max_retries then
        (let fs' = curl_output (curl retry_count) output_file fs in
         if curl_succeeded (curl retry_count) then
           \<lparr>outcome = validate_download output_file fs', attempts = retry_count + 1,
            sleeps = slept, files_after = fs'\<rparr>
         else
           download_file_loop curl output_file (retry_count + 1)
             (if retry_count + 1 < max_retries then slept + 1 else slept) fs')
      else
        \<lparr>outcome = Inl Failed_to_download_after_attempts, attempts = retry_count,
         sleeps = slept, files_after = fs\<rparr>)"
  by pat_completeness auto
termination
  by (relation "measure (\<lambda>(curl, output_file, retry_count, slept, fs). max_retries - retry_count)")
     auto

declare download_file_loop.simps [simp del]

definition download_file :: "(nat \<Rightarrow> curl_result) \<Rightarrow> string \<Rightarrow> files \<Rightarrow> download" where
  "download_file curl output_file fs = download_file_loop curl output_file 0 0 fs"

text \<open>
  \<^verbatim>\<open>fetch_latest_release\<close>: the query answers with a status code and a body.
\<close>

definition fetch_latest_release :: "string \<times> json \<Rightarrow> sh_error + json" where
  "fetch_latest_release response =
     (case response of (http_code, body) \<Rightarrow>
        if http_code \<noteq> ''200'' then Inl (GitHub_API_returned_HTTP http_code) else Inr body)"

text \<open>
  The network as \<^verbatim>\<open>process_upstream\<close> and \<^verbatim>\<open>main\<close> see it: the answer of the release
  query for an owner and a repository, and the outcome of each \<^verbatim>\<open>curl\<close> invocation for
  an address.
\<close>

record network =
  api :: "string \<Rightarrow> string \<Rightarrow> string \<times> json"
  transfer :: "string \<Rightarrow> nat \<Rightarrow> curl_result"

text \<open>
  \<^verbatim>\<open>process_upstream\<close>. It runs as the condition of an \<^verbatim>\<open>if\<close>, where \<^verbatim>\<open>set -e\<close> has
  no effect: a failed \<^verbatim>\<open>fetch_latest_release\<close> inside the command substitution leaves
  \<^verbatim>\<open>release_json\<close> without a document and the function goes on, and
  \<^verbatim>\<open>local url=$(...)\<close> discards the status of \<^verbatim>\<open>find_helm_chart_asset\<close>. On success
  the function prints the output path.
\<close>

definition process_upstream ::
  "network \<Rightarrow> string \<Rightarrow> string \<Rightarrow> string \<Rightarrow> files \<Rightarrow> (sh_error + string) \<times> files" where
  "process_upstream net out_dir owner repo fs =
     (let release_json =
            (case fetch_latest_release (api net owner repo) of
               Inl e \<Rightarrow> \<lparr>raw = [], parsed = None\<rparr>
             | Inr body \<Rightarrow> body);
          tag = jq_tag_name release_json;
          url = (case find_helm_chart_asset release_json owner repo of
                   Inl e \<Rightarrow> []
                 | Inr u \<Rightarrow> u)
      in if url = [] \<or> url = ''null'' then (Inl Could_not_determine_download_URL, fs)
         else
           (let filename = owner @ ''-'' @ repo @ ''-'' @ tag @ ''.tgz'';
                output_path = out_dir @ ''/'' @ filename;
                d = download_file (transfer net url) output_path fs
            in case outcome d of
                 Inl e \<Rightarrow> (Inl e, files_after d)
               | Inr u \<Rightarrow> (Inr output_path, files_after d)))"

text \<open>
  The arithmetic command \<^verbatim>\<open>((x++))\<close>: it stores \<open>x + 1\<close>, its value is the old \<open>x\<close>,
  and, as every arithmetic command, its exit status is 1 when that value is 0 and 0
  otherwise. The pair is the new value of the variable and the exit status.
\<close>

definition post_increment :: "nat \<Rightarrow> nat \<times> nat" where
  "post_increment x = (x + 1, if x = 0 then 1 else 0)"

text \<open>\<^verbatim>\<open>IFS='/' read -r owner repo <<< "$upstream"\<close>\<close>

definition read_owner_repo :: "string \<Rightarrow> string \<times> string" where
  "read_owner_repo upstream =
     (takeWhile (\<lambda>c. c \<noteq> CHR ''/'') upstream, drop 1 (dropWhile (\<lambda>c. c \<noteq> CHR ''/'') upstream))"

definition upstreams_sh :: "string list" where
  "upstreams_sh =
     [''envoyproxy/gateway'',
      ''envoyproxy/ai-gateway-helm'',
      ''envoyproxy/ai-gateway-crds-helm'',
      ''envoyproxy/ai-gateway'']"

text \<open>
  How a run of a script ends: its exit status, the upstreams it processed, the counts of
  the summary line when the run reached it, and the files afterwards.
\<close>

record run =
  exit_status :: nat
  processed :: "string list"
  summary :: "(nat \<times> nat) option"
  run_files :: files

text \<open>
  The \<^verbatim>\<open>for\<close> loop of \<^verbatim>\<open>main\<close>. The script runs under \<^verbatim>\<open>set -euo pipefail\<close> and
  \<^verbatim>\<open>main\<close> is called at the top level, so a command of the loop body that ends with
  a status other than 0 ends the script with that status (the condition of the \<^verbatim>\<open>if\<close>
  is exempt; the two arithmetic commands are not). \<open>Inl\<close> is such an exit, \<open>Inr\<close> the
  state when the loop is through.
\<close>

fun main_loop ::
  "network \<Rightarrow> string \<Rightarrow> string list \<Rightarrow> nat \<Rightarrow> nat \<Rightarrow> string list \<Rightarrow> files \<Rightarrow>
   (nat \<times> string list \<times> files) + (nat \<times> nat \<times> string list \<times> files)" where
  "main_loop net out_dir [] processed_count failed_count seen fs =
     Inr (processed_count, failed_count, seen, fs)"
| "main_loop net out_dir (upstream # rest) processed_count failed_count seen fs =
     (case read_owner_repo upstream of (owner, repo) \<Rightarrow>
      (case process_upstream net out_dir owner repo fs of
         (Inr output_path, fs') \<Rightarrow>
           (case post_increment processed_count of (processed_count', status) \<Rightarrow>
              if status = 0
              then main_loop net out_dir rest processed_count' failed_count (seen @ [upstream]) fs'
              else Inl (status, seen @ [upstream], fs'))
       | (Inl e, fs') \<Rightarrow>
           (case post_increment failed_count of (failed_count', status) \<Rightarrow>
              if status = 0
              then main_loop net out_dir rest processed_count failed_count' (seen @ [upstream]) fs'
              else Inl (status, seen @ [upstream], fs'))))"

text \<open>
  \<^verbatim>\<open>main\<close>: \<open>tools_available\<close> says whether \<^verbatim>\<open>validate_tools\<close> finds every tool, and
  \<open>values_updated\<close> whether \<^verbatim>\<open>update_values_file\<close> succeeds.
\<close>

definition main :: "network \<Rightarrow> string \<Rightarrow> bool \<Rightarrow> bool \<Rightarrow> files \<Rightarrow> run" where
  "main net out_dir tools_available values_updated fs =
     (if \<not> tools_available
      then \<lparr>exit_status = 1, processed = [], summary = None, run_files = fs\<rparr>
      else
        (case main_loop net out_dir upstreams_sh 0 0 [] fs of
           Inl (status, seen, fs') \<Rightarrow>
             \<lparr>exit_status = status, processed = seen, summary = None, run_files = fs'\<rparr>
         | Inr (processed_count, failed_count, seen, fs') \<Rightarrow>
             if \<not> values_updated
             then \<lparr>exit_status = 1, processed = seen, summary = None, run_files = fs'\<rparr>
             else if failed_count > 0
             then \<lparr>exit_status = 1, processed = seen,
                   summary = Some (processed_count, failed_count), run_files = fs'\<rparr>
             else \<lparr>exit_status = 0, processed = seen,
                   summary = Some (processed_count, failed_count), run_files = fs'\<rparr>))"

subsection \<open>The second script\<close>

text \<open>
  The lines printed by
  \<^verbatim>\<open>jq -r '.assets[] | select(.browser_download_url | endswith(".tgz")) | .browser_download_url'\<close>.
  \<^verbatim>\<open>endswith\<close> on an address that is not a string is an error that ends \<^verbatim>\<open>jq\<close>.
\<close>

fun jq_select_tgz_urls :: "asset list \<Rightarrow> string list" where
  "jq_select_tgz_urls [] = []"
| "jq_select_tgz_urls (a # rest) =
     (case asset_browser_download_url a of
        None \<Rightarrow> []
      | Some u \<Rightarrow>
          (if suffix ''.tgz'' u then u # jq_select_tgz_urls rest
           else jq_select_tgz_urls rest))"

definition jq_tgz_urls :: "json \<Rightarrow> string list" where
  "jq_tgz_urls j =
     (case parsed j of None \<Rightarrow> [] | Some r \<Rightarrow> jq_select_tgz_urls (release_assets r))"

definition get_download_url :: "json \<Rightarrow> string \<Rightarrow> sh_error + string" where
  "get_download_url api_json repo_key =
     (let tag_name = jq_tag_name_or_empty api_json
      in if tag_name = [] \<or> tag_name = ''null'' then Inl No_tag_name_in_API_response
         else
           (let tgz_url = head_n1 (jq_tgz_urls api_json)
            in if tgz_url \<noteq> [] \<and> tgz_url \<noteq> ''null'' then Inr tgz_url
               else
                 (let owner_repo = jq_repository_full_name_or_empty api_json
                  in if owner_repo = [] \<or> owner_repo = ''null''
                     then Inl Cannot_determine_repository_name
                     else Inr (''https://github.com/'' @ owner_repo @
                               ''/archive/refs/tags/'' @ tag_name @ ''.tar.gz''))))"

definition MAX_RETRIES :: nat where
  "MAX_RETRIES = 3"

text \<open>
  The \<^verbatim>\<open>for attempt in 1 2 3\<close> loop of the second \<^verbatim>\<open>download_file\<close>; \<open>n\<close> counts the
  \<^verbatim>\<open>curl\<close> invocations made so far and \<open>curl n\<close> is the outcome of the next one. An
  invocation here is \<^verbatim>\<open>curl -fL --retry 3 --retry-all-errors\<close>, which may repeat the
  transfer by itself before it reports its outcome.
\<close>

fun download_file_2_loop ::
  "(nat \<Rightarrow> curl_result) \<Rightarrow> string \<Rightarrow> nat list \<Rightarrow> nat \<Rightarrow> nat \<Rightarrow> files \<Rightarrow> download" where
  "download_file_2_loop curl output_file [] n slept fs =
     \<lparr>outcome = Inl Failed_to_download_after_attempts, attempts = n, sleeps = slept,
      files_after = fs\<rparr>"
| "download_file_2_loop curl output_file (attempt # rest) n slept fs =
     (let fs' = curl_output (curl n) output_file fs in
      if curl_succeeded (curl n) \<and>
         (case fs' output_file of None \<Rightarrow> False | Some content \<Rightarrow> content \<noteq> [])
      then \<lparr>outcome = Inr (), attempts = n + 1, sleeps = slept, files_after = fs'\<rparr>
      else if attempt < MAX_RETRIES
      then download_file_2_loop curl output_file rest (n + 1) (slept + 1) fs'
      else \<lparr>outcome = Inl Failed_to_download_after_attempts, attempts = n + 1,
            sleeps = slept, files_after = fs'\<rparr>)"

definition download_file_2 :: "(nat \<Rightarrow> curl_result) \<Rightarrow> string \<Rightarrow> files \<Rightarrow> download" where
  "download_file_2 curl output_file fs = download_file_2_loop curl output_file [1, 2, 3] 0 0 fs"

text \<open>\<^verbatim>\<open>sed 's/.*\///'\<close>: what follows the last slash.\<close>

definition sed_strip_to_last_slash :: "string \<Rightarrow> string" where
  "sed_strip_to_last_slash s = rev (takeWhile (\<lambda>c. c \<noteq> CHR ''/'') (rev s))"

text \<open>
  The network as the second script sees it: \<open>fetch owner_repo\<close> is the document that
  its \<^verbatim>\<open>fetch_latest_release\<close> prints, or \<open>None\<close> when that function returns 1.
\<close>

record network_2 =
  fetch :: "string \<Rightarrow> json option"
  transfer_2 :: "string \<Rightarrow> nat \<Rightarrow> curl_result"

text \<open>
  \<^verbatim>\<open>process_repo\<close> returns only a status; on success the model also hands back the
  address, the file name and the path it used.
\<close>

record artifact =
  artifact_url :: string
  artifact_filename :: string
  artifact_path :: string

definition process_repo ::
  "network_2 \<Rightarrow> string \<Rightarrow> string \<Rightarrow> files \<Rightarrow> (sh_error + artifact) \<times> files" where
  "process_repo net output_dir owner_repo fs =
     (case fetch net owner_repo of
        None \<Rightarrow> (Inl Fetch_failed, fs)
      | Some api_json \<Rightarrow>
          (let tag_name = jq_tag_name_or_empty api_json
           in if tag_name = [] \<or> tag_name = ''null'' then (Inl No_valid_tag_name, fs)
              else
                (case get_download_url api_json owner_repo of
                   Inl e \<Rightarrow> (Inl e, fs)
                 | Inr download_url \<Rightarrow>
                     if download_url = [] then (Inl No_valid_download_URL, fs)
                     else
                       (let repo_name = sed_strip_to_last_slash owner_repo;
                            filename =
                              (if suffix ''.tar.gz'' download_url
                               then repo_name @ ''-'' @ tag_name @ ''.tar.gz''
                               else repo_name @ ''-'' @ tag_name @ ''.tgz'');
                            output_path = output_dir @ ''/'' @ filename;
                            d = download_file_2 (transfer_2 net download_url) output_path fs
                        in case outcome d of
                             Inl e \<Rightarrow> (Inl e, files_after d)
                           | Inr u \<Rightarrow>
                               (Inr \<lparr>artifact_url = download_url, artifact_filename = filename,
                                     artifact_path = output_path\<rparr>,
                                files_after d)))))"

definition REPOS :: "string list" where
  "REPOS =
     [''envoyproxy/gateway'',
      ''envoyproxy/ai-gateway-helm'',
      ''envoyproxy/ai-gateway-crds-helm'']"

text \<open>
  The \<^verbatim>\<open>for\<close> loop of the second \<^verbatim>\<open>main\<close>, under \<^verbatim>\<open>set -euo pipefail\<close> as well, with
  its three counters.
\<close>

fun main_2_loop ::
  "network_2 \<Rightarrow> string \<Rightarrow> string list \<Rightarrow> nat \<Rightarrow> nat \<Rightarrow> nat \<Rightarrow> string list \<Rightarrow> files \<Rightarrow>
   (nat \<times> string list \<times> files) + (nat \<times> nat \<times> nat \<times> string list \<times> files)" where
  "main_2_loop net output_dir [] processed_count failed_count skipped_count seen fs =
     Inr (processed_count, failed_count, skipped_count, seen, fs)"
| "main_2_loop net output_dir (owner_repo # rest) processed_count failed_count skipped_count
     seen fs =
     (case process_repo net output_dir owner_repo fs of
        (Inr a, fs') \<Rightarrow>
          (case post_increment processed_count of (processed_count', status) \<Rightarrow>
             if status = 0
             then main_2_loop net output_dir rest processed_count' failed_count skipped_count
                    (seen @ [owner_repo]) fs'
             else Inl (status, seen @ [owner_repo], fs'))
      | (Inl e, fs') \<Rightarrow>
          (case post_increment failed_count of (failed_count', status) \<Rightarrow>
             if status = 0
             then (case post_increment skipped_count of (skipped_count', status') \<Rightarrow>
                     if status' = 0
                     then main_2_loop net output_dir rest processed_count failed_count'
                            skipped_count' (seen @ [owner_repo]) fs'
                     else Inl (status', seen @ [owner_repo], fs'))
             else Inl (status, seen @ [owner_repo], fs')))"

text \<open>
  The second \<^verbatim>\<open>main\<close>. A failed \<^verbatim>\<open>update_values_yaml\<close> only logs a warning, and the
  function ends with the status of its last \<^verbatim>\<open>info\<close>, whatever the counters are.
\<close>

definition main_2 :: "network_2 \<Rightarrow> string \<Rightarrow> bool \<Rightarrow> files \<Rightarrow> run" where
  "main_2 net output_dir tools_available fs =
     (if \<not> tools_available
      then \<lparr>exit_status = 1, processed = [], summary = None, run_files = fs\<rparr>
      else
        (case main_2_loop net output_dir REPOS 0 0 0 [] fs of
           Inl (status, seen, fs') \<Rightarrow>
             \<lparr>exit_status = status, processed = seen, summary = None, run_files = fs'\<rparr>
         | Inr (processed_count, failed_count, skipped_count, seen, fs') \<Rightarrow>
             \<lparr>exit_status = 0, processed = seen,
              summary = Some (processed_count, skipped_count), run_files = fs'\<rparr>))"

section \<open>The command-line tool: package helm, install and doctor\<close>

text \<open>
  The tool starts external programs (\<^verbatim>\<open>helm\<close>, \<^verbatim>\<open>kubectl\<close>) and prints to the terminal.
  The host gives the outcome of a command line, \<open>Inl\<close> the error and \<open>Inr\<close> the text the
  program printed, the same for the whole run of the tool, and says which programs
  \<^verbatim>\<open>exec.LookPath\<close> finds. The console records what the tool did: the texts it printed,
  one entry for each call of a print function, without the final line break and without
  the pictographs of the messages, and the command lines of the programs it started.
\<close>

record host =
  run :: "string list \<Rightarrow> string + string"
  look_path :: "string \<Rightarrow> bool"

record console =
  printed :: "string list"
  started :: "string list list"

definition print :: "string \<Rightarrow> console \<Rightarrow> console" where
  "print s c = c\<lparr>printed := printed c @ [s]\<rparr>"

text \<open>\<^verbatim>\<open>exec.Command(name, args...)\<close> followed by \<^verbatim>\<open>Run()\<close> or \<^verbatim>\<open>Output()\<close>.\<close>

definition exec_Command :: "host \<Rightarrow> string list \<Rightarrow> console \<Rightarrow> (string + string) \<times> console" where
  "exec_Command h argv c = (run h argv, c\<lparr>started := started c @ [argv]\<rparr>)"

record HelmOptions =
  OptDryRun :: bool
  OptNamespace :: string
  OptValues :: "string list"
  OptVersion :: string
  OptChartRepo :: string

record HelmCommand =
  dryRun :: bool

definition NewHelmCommand :: "bool \<Rightarrow> HelmCommand" where
  "NewHelmCommand d = \<lparr>dryRun = d\<rparr>"

text \<open>The first component of a result is the returned \<^verbatim>\<open>error\<close>; \<open>None\<close> is nil.\<close>

definition Execute :: "host \<Rightarrow> HelmCommand \<Rightarrow> string list \<Rightarrow> console \<Rightarrow> string option \<times> console" where
  "Execute h cmd args c =
     (if dryRun cmd then (None, print (''[DRY-RUN] helm '' @ Join args '' '') c)
      else
        (case exec_Command h (''helm'' # args) c of
           (Inl err, c') \<Rightarrow> (Some (''helm command failed: '' @ err), c')
         | (Inr out, c') \<Rightarrow> (None, c')))"


definition RepoAdd :: "host \<Rightarrow> HelmCommand \<Rightarrow> string \<Rightarrow> string \<Rightarrow> console \<Rightarrow> string option \<times> console" where
  "RepoAdd h cmd name url c = Execute h cmd [''repo'', ''add'', name, url, ''--force-update''] c"

definition RepoUpdate :: "host \<Rightarrow> HelmCommand \<Rightarrow> console \<Rightarrow> string option \<times> console" where
  "RepoUpdate h cmd c = Execute h cmd [''repo'', ''update''] c"

definition Install_args :: "string \<Rightarrow> string \<Rightarrow> string \<Rightarrow> HelmOptions \<Rightarrow> string list" where
  "Install_args releaseName chart namespace opts =
     [''upgrade'', ''--install'', releaseName, chart]
     @ [''-n'', namespace, ''--create-namespace'']
     @ (if OptVersion opts \<noteq> [] then [''--version'', OptVersion opts] else [])
     @ concat (map (\<lambda>v. [''-f'', v]) (OptValues opts))
     @ (if OptDryRun opts then [''--dry-run'', ''--debug''] else [])"

definition Install ::
  "host \<Rightarrow> HelmCommand \<Rightarrow> string \<Rightarrow> string \<Rightarrow> string \<Rightarrow> HelmOptions \<Rightarrow> console \<Rightarrow>
   string option \<times> console" where
  "Install h cmd releaseName chart namespace opts c =
     Execute h cmd (Install_args releaseName chart namespace opts) c"

definition Uninstall ::
  "host \<Rightarrow> HelmCommand \<Rightarrow> string \<Rightarrow> string \<Rightarrow> console \<Rightarrow> string option \<times> console" where
  "Uninstall h cmd releaseName namespace c =
     (if dryRun cmd
      then (None, print (''[DRY-RUN] helm uninstall '' @ releaseName @ '' -n '' @ namespace) c)
      else
        (case exec_Command h [''helm'', ''uninstall'', releaseName, ''-n'', namespace] c of
           (Inl err, c') \<Rightarrow> (Some err, c')
         | (Inr out, c') \<Rightarrow> (None, c')))"



subsection \<open>install: the clean pass\<close>

record Config =
  NamespaceGateway :: string
  NamespaceAI :: string
  SkipClean :: bool
  DryRun :: bool
  ValuesExtra :: "string list"

fun cleanPreviousInstall_loop ::
  "host \<Rightarrow> HelmCommand \<Rightarrow> (string \<times> string) list \<Rightarrow> console \<Rightarrow> console" where
  "cleanPreviousInstall_loop h helmCmd [] c = c"
| "cleanPreviousInstall_loop h helmCmd ((name, namespace) # rest) c =
     (case Uninstall h helmCmd name namespace c of
        (Some err, c') \<Rightarrow>
          cleanPreviousInstall_loop h helmCmd rest
            (print (''  Note: '' @ name @ '' was not previously installed'') c')
      | (None, c') \<Rightarrow> cleanPreviousInstall_loop h helmCmd rest c')"

definition releases :: "Config \<Rightarrow> (string \<times> string) list" where
  "releases cfg =
     [(''eg'', NamespaceGateway cfg),
      (''aieg-crd'', NamespaceAI cfg),
      (''aieg'', NamespaceAI cfg)]"

definition cleanPreviousInstall :: "host \<Rightarrow> Config \<Rightarrow> bool \<Rightarrow> console \<Rightarrow> string option \<times> console" where
  "cleanPreviousInstall h cfg isDryRun c =
     (let helmCmd = NewHelmCommand isDryRun
      in (None, cleanPreviousInstall_loop h helmCmd (releases cfg) c))"

subsection \<open>doctor\<close>








section \<open>Example inputs\<close>

text \<open>A console on which nothing has happened yet.\<close>

definition blank :: console where
  "blank = \<lparr>printed = [], started = []\<rparr>"

text \<open>
  A cluster on which nothing is installed yet: the tools are there and the cluster
  answers, but every \<^verbatim>\<open>kubectl get\<close> and every \<^verbatim>\<open>helm uninstall\<close> fails.
\<close>

definition fresh_cluster :: host where
  "fresh_cluster =
     \<lparr>run = (\<lambda>argv. if take 2 argv = [''kubectl'', ''get''] \<or> take 2 argv = [''helm'', ''uninstall'']
                     then Inl ''exit status 1'' else Inr ''v3''),
      look_path = (\<lambda>p. True)\<rparr>"

definition default_cfg :: Config where
  "default_cfg =
     \<lparr>NamespaceGateway = ''envoy-gateway-system'', NamespaceAI = ''envoy-ai-gateway-system'',
      SkipClean = False, DryRun = False, ValuesExtra = []\<rparr>"

text \<open>
  A release host on which the lookup of \<^verbatim>\<open>envoyproxy/ai-gateway\<close> fails and every other
  project has a release with one chart archive.
\<close>

definition one_missing :: github where
  "one_missing owner repo =
     (if repo = ''ai-gateway'' then Inl ''404 Not Found''
      else Inr \<lparr>TagName = Some ''v1.0.0'',
                Assets = [\<lparr>Name = Some ''chart.tgz'', BrowserDownloadURL = Some (''https://x/'' @ repo)\<rparr>]\<rparr>)"

text \<open>
  A release document with the tag \<^verbatim>\<open>v2.3.1\<close> and an empty asset list, which does not
  name its repository.
\<close>

definition no_assets_release :: json where
  "no_assets_release =
     \<lparr>raw = ''{\"tag_name\":\"v2.3.1\",\"assets\":[]}'',
      parsed = Some \<lparr>release_tag_name = Some ''v2.3.1'', release_assets = [],
                      release_repository_full_name = None\<rparr>\<rparr>"

text \<open>The same release in a document that names a repository, here a fork.\<close>

definition forked_release :: json where
  "forked_release =
     \<lparr>raw = ''{\"tag_name\":\"v2.3.1\",\"assets\":[],\"repository\":{\"full_name\":\"fork/widget\"}}'',
      parsed = Some \<lparr>release_tag_name = Some ''v2.3.1'', release_assets = [],
                      release_repository_full_name = Some ''fork/widget''\<rparr>\<rparr>"

text \<open>
  A release with two assets: a checksum file whose name contains \<^verbatim>\<open>tgz\<close> but none of
  the four keywords, then a chart archive.
\<close>

definition checksums_asset :: asset where
  "checksums_asset =
     \<lparr>asset_name = Some ''checksums-tgz.txt'',
      asset_browser_download_url = Some ''https://x/checksums-tgz.txt''\<rparr>"

definition chart_asset :: asset where
  "chart_asset =
     \<lparr>asset_name = Some ''widget-chart.zip'',
      asset_browser_download_url = Some ''https://x/widget-chart.zip''\<rparr>"

definition checksums_first_release :: json where
  "checksums_first_release =
     \<lparr>raw = ''{\"tag_name\":\"v2.3.1\",\"assets\":[{\"name\":\"checksums-tgz.txt\",\"browser_download_url\":\"https://x/checksums-tgz.txt\"},{\"name\":\"widget-chart.zip\",\"browser_download_url\":\"https://x/widget-chart.zip\"}]}'',
      parsed = Some \<lparr>release_tag_name = Some ''v2.3.1'',
                      release_assets = [checksums_asset, chart_asset],
                      release_repository_full_name = None\<rparr>\<rparr>"

text \<open>The same release as the Go client library delivers it.\<close>

definition checksums_first_RepositoryRelease :: RepositoryRelease where
  "checksums_first_RepositoryRelease =
     \<lparr>TagName = Some ''v2.3.1'',
      Assets = [\<lparr>Name = Some ''checksums-tgz.txt'',
                 BrowserDownloadURL = Some ''https://x/checksums-tgz.txt''\<rparr>,
                \<lparr>Name = Some ''widget-chart.zip'',
                 BrowserDownloadURL = Some ''https://x/widget-chart.zip''\<rparr>]\<rparr>"


text \<open>No files at all, and the files left by an earlier run of the script.\<close>

definition no_files :: files where
  "no_files = Map.empty"


text \<open>
  A release host that knows no release of \<^verbatim>\<open>envoyproxy/ai-gateway-helm\<close> (status 404)
  and has a release with one chart archive for every other project; every download
  succeeds.
\<close>

definition chart_release :: json where
  "chart_release =
     \<lparr>raw = ''{\"tag_name\":\"v1.0.0\",\"assets\":[{\"name\":\"chart.tgz\",\"browser_download_url\":\"https://x/chart.tgz\"}]}'',
      parsed = Some \<lparr>release_tag_name = Some ''v1.0.0'',
                      release_assets =
                        [\<lparr>asset_name = Some ''chart.tgz'',
                          asset_browser_download_url = Some ''https://x/chart.tgz''\<rparr>],
                      release_repository_full_name = None\<rparr>\<rparr>"

definition helm_chart_not_found :: network where
  "helm_chart_not_found =
     \<lparr>api = (\<lambda>owner repo. if repo = ''ai-gateway-helm''
                            then (''404'', \<lparr>raw = ''{\"message\":\"Not Found\"}'',
                                           parsed = Some \<lparr>release_tag_name = None,
                                                           release_assets = [],
                                                           release_repository_full_name = None\<rparr>\<rparr>)
                            else (''200'', chart_release)),
      transfer = (\<lambda>url k. Curl_ok ''archive'')\<rparr>"

definition helm_chart_not_found_2 :: network_2 where
  "helm_chart_not_found_2 =
     \<lparr>fetch = (\<lambda>owner_repo. if owner_repo = ''envoyproxy/ai-gateway-helm'' then None
                             else Some chart_release),
      transfer_2 = (\<lambda>url k. Curl_ok ''archive'')\<rparr>"

text \<open>The same with \<^verbatim>\<open>envoyproxy/gateway\<close> as the project without a release.\<close>

definition gateway_not_found :: network where
  "gateway_not_found =
     \<lparr>api = (\<lambda>owner repo. if repo = ''gateway''
                            then (''404'', \<lparr>raw = ''{\"message\":\"Not Found\"}'',
                                           parsed = Some \<lparr>release_tag_name = None,
                                                           release_assets = [],
                                                           release_repository_full_name = None\<rparr>\<rparr>)
                            else (''200'', chart_release)),
      transfer = (\<lambda>url k. Curl_ok ''archive'')\<rparr>"

definition gateway_not_found_2 :: network_2 where
  "gateway_not_found_2 =
     \<lparr>fetch = (\<lambda>owner_repo. if owner_repo = ''envoyproxy/gateway'' then None
                             else Some chart_release),
      transfer_2 = (\<lambda>url k. Curl_ok ''archive'')\<rparr>"





section \<open>Facts about the command-line tool\<close>

lemma print_simps [simp]:
  "printed (print s c) = printed c @ [s]" "started (print s c) = started c"
  by (simp_all add: print_def)

lemma Uninstall_real:
  "Uninstall h (NewHelmCommand False) name ns c =
     ((case run h [''helm'', ''uninstall'', name, ''-n'', ns] of Inl err \<Rightarrow> Some err | Inr out \<Rightarrow> None),
      c\<lparr>started := started c @ [[''helm'', ''uninstall'', name, ''-n'', ns]]\<rparr>)"
  by (simp add: Uninstall_def NewHelmCommand_def exec_Command_def split: sum.splits)

lemma cleanPreviousInstall_loop_printed:
  "printed (cleanPreviousInstall_loop h (NewHelmCommand False) rs c) =
     printed c @ map (\<lambda>(name, namespace). ''  Note: '' @ name @ '' was not previously installed'')
       (filter (\<lambda>(name, namespace). isl (run h [''helm'', ''uninstall'', name, ''-n'', namespace])) rs)"
proof (induction rs arbitrary: c)
  case Nil
  show ?case by simp
next
  case (Cons r rs)
  obtain name ns where r: "r = (name, ns)" by (cases r)
  show ?case
    by (cases "run h [''helm'', ''uninstall'', name, ''-n'', ns]")
       (simp_all add: r Uninstall_real Cons.IH)
qed

text \<open>
  C7. The clean pass of the installer always returns nil, in dry-run mode or not and
  whatever the uninstall commands answer. Outside dry-run mode it prints one note for each
  release whose uninstall failed (the release was not there) and nothing else: the failure
  is logged and swallowed.
\<close>

theorem cleanPreviousInstall_never_fails:
  "fst (cleanPreviousInstall h cfg isDryRun c) = None \<and>
   printed (snd (cleanPreviousInstall h cfg False c)) =
     printed c @ map (\<lambda>(name, namespace). ''  Note: '' @ name @ '' was not previously installed'')
       (filter (\<lambda>(name, namespace). isl (run h [''helm'', ''uninstall'', name, ''-n'', namespace]))
          (releases cfg))"
  by (simp add: cleanPreviousInstall_def cleanPreviousInstall_loop_printed)

theorem cleanPreviousInstall_never_fails_witness:
  "fst (cleanPreviousInstall fresh_cluster default_cfg False blank) = None \<and>
   printed (snd (cleanPreviousInstall fresh_cluster default_cfg False blank)) =
     [''  Note: eg was not previously installed'',
      ''  Note: aieg-crd was not previously installed'',
      ''  Note: aieg was not previously installed'']"
  using cleanPreviousInstall_never_fails [of fresh_cluster default_cfg False blank]
  by (simp add: fresh_cluster_def default_cfg_def blank_def releases_def)

text \<open>
  C8. With the dry-run flag of the helm command set, each of repository add, repository
  update, install and uninstall returns nil and only prints the command line it stands
  for: the list of started programs is unchanged.
\<close>

theorem dry_run_starts_nothing:
  assumes "dryRun cmd"
  shows "RepoAdd h cmd name url c =
           (None, c\<lparr>printed := printed c @
              [''[DRY-RUN] helm repo add '' @ name @ '' '' @ url @ '' --force-update'']\<rparr>) \<and>
         RepoUpdate h cmd c =
           (None, c\<lparr>printed := printed c @ [''[DRY-RUN] helm repo update'']\<rparr>) \<and>
         Install h cmd releaseName chart namespace opts c =
           (None, c\<lparr>printed := printed c @
              [''[DRY-RUN] helm '' @ Join (Install_args releaseName chart namespace opts) '' '']\<rparr>) \<and>
         Uninstall h cmd releaseName namespace c =
           (None, c\<lparr>printed := printed c @
              [''[DRY-RUN] helm uninstall '' @ releaseName @ '' -n '' @ namespace]\<rparr>)"
  using assms
  by (simp add: RepoAdd_def RepoUpdate_def Install_def Uninstall_def Execute_def print_def)

theorem dry_run_starts_nothing_witness:
  "dryRun (NewHelmCommand True) \<and>
   RepoAdd fresh_cluster (NewHelmCommand True) ''envoyproxy'' ''oci://docker.io/envoyproxy'' blank =
     (None, \<lparr>printed = [''[DRY-RUN] helm repo add envoyproxy oci://docker.io/envoyproxy --force-update''],
             started = []\<rparr>) \<and>
   RepoUpdate fresh_cluster (NewHelmCommand True) blank =
     (None, \<lparr>printed = [''[DRY-RUN] helm repo update''], started = []\<rparr>) \<and>
   Install fresh_cluster (NewHelmCommand True) ''eg'' ''envoyproxy/gateway-helm'' ''envoy-gateway-system''
       \<lparr>OptDryRun = False, OptNamespace = ''envoy-gateway-system'', OptValues = [''extra.yaml''],
        OptVersion = ''v0.0.0-latest'', OptChartRepo = []\<rparr> blank =
     (None, \<lparr>printed = [''[DRY-RUN] helm upgrade --install eg envoyproxy/gateway-helm -n envoy-gateway-system --create-namespace --version v0.0.0-latest -f extra.yaml''],
             started = []\<rparr>) \<and>
   Uninstall fresh_cluster (NewHelmCommand True) ''eg'' ''envoy-gateway-system'' blank =
     (None, \<lparr>printed = [''[DRY-RUN] helm uninstall eg -n envoy-gateway-system''], started = []\<rparr>)"
proof -
  have d: "dryRun (NewHelmCommand True)"
    by (simp add: NewHelmCommand_def)
  show ?thesis
    using d dry_run_starts_nothing [OF d, where h = fresh_cluster and name = "''envoyproxy''"
        and url = "''oci://docker.io/envoyproxy''" and c = blank and releaseName = "''eg''"
        and chart = "''envoyproxy/gateway-helm''" and namespace = "''envoy-gateway-system''"
        and opts = "\<lparr>OptDryRun = False, OptNamespace = ''envoy-gateway-system'',
          OptValues = [''extra.yaml''], OptVersion = ''v0.0.0-latest'', OptChartRepo = []\<rparr>"]
    by (simp add: blank_def Install_args_def)
qed









section \<open>Facts about the release lookup of the command-line tool\<close>

lemma GetUpstreamCharts_loop_eq:
  "GetUpstreamCharts_loop client ups charts errors =
     (charts @ map projr (filter (\<lambda>x. \<not> isl x) (map (\<lambda>(ow, r). FetchLatestRelease client ow r) ups)),
      errors @ map projl (filter isl (map (\<lambda>(ow, r). FetchLatestRelease client ow r) ups)))"
proof (induction ups arbitrary: charts errors)
  case Nil
  show ?case by simp
next
  case (Cons u ups)
  obtain ow r where u: "u = (ow, r)" by (cases u)
  show ?case
    by (cases "FetchLatestRelease client ow r") (simp_all add: u Cons.IH)
qed

lemma one_missing_results:
  "map (\<lambda>(ow, r). FetchLatestRelease one_missing ow r) upstreams =
     [Inr \<lparr>Owner = ''envoyproxy'', Repo = ''gateway'', Version = ''v1.0.0'',
           URL = ''https://x/gateway''\<rparr>,
      Inr \<lparr>Owner = ''envoyproxy'', Repo = ''ai-gateway-helm'', Version = ''v1.0.0'',
           URL = ''https://x/ai-gateway-helm''\<rparr>,
      Inr \<lparr>Owner = ''envoyproxy'', Repo = ''ai-gateway-crds-helm'', Version = ''v1.0.0'',
           URL = ''https://x/ai-gateway-crds-helm''\<rparr>,
      Inl ''failed to fetch latest release for envoyproxy/ai-gateway: 404 Not Found'']"
  by code_simp

text \<open>
  C10. \<^verbatim>\<open>GetUpstreamCharts\<close> returns the charts of all the upstreams whose lookup
  succeeded, in the order of the list, also when other lookups failed. Its error is nil
  exactly when every lookup succeeded; otherwise the message is the header followed by
  the messages of the failed lookups, one for each failed upstream, joined by line breaks.
\<close>

theorem GetUpstreamCharts_partial_results:
  "(let results = map (\<lambda>(ow, r). FetchLatestRelease client ow r) upstreams;
        failed = map projl (filter isl results)
    in fst (GetUpstreamCharts client) = map projr (filter (\<lambda>x. \<not> isl x) results) \<and>
       length failed = length (filter isl results) \<and>
       snd (GetUpstreamCharts client) =
         (if failed = [] then None
          else Some (''errors fetching upstream charts:'' @ newline @ Join failed newline)) \<and>
       ((snd (GetUpstreamCharts client) = None) = list_all (\<lambda>x. \<not> isl x) results))"
  by (simp add: GetUpstreamCharts_def GetUpstreamCharts_loop_eq Let_def list_all_iff
        filter_empty_conv)

theorem GetUpstreamCharts_partial_results_witness:
  "map Repo (fst (GetUpstreamCharts one_missing)) =
     [''gateway'', ''ai-gateway-helm'', ''ai-gateway-crds-helm''] \<and>
   snd (GetUpstreamCharts one_missing) =
     Some (''errors fetching upstream charts:'' @ newline @
           ''failed to fetch latest release for envoyproxy/ai-gateway: 404 Not Found'')"
  using GetUpstreamCharts_partial_results [of one_missing]
  unfolding one_missing_results
  by (simp add: Let_def)

text \<open>
  The asset search of the command-line tool returns the address of the first asset, in
  the order of the list, whose lowered name contains one of the four keywords.
\<close>

lemma matches_keyword_iff:
  "matches_keyword name ks = list_ex (Contains (ToLower name)) ks"
  by (induction ks) simp_all

lemma findChartAsset_loop_find:
  "findChartAsset_loop assets =
     (case find (\<lambda>a. list_ex (Contains (ToLower (GetName a))) chart_keywords) assets of
        None \<Rightarrow> []
      | Some a \<Rightarrow> GetBrowserDownloadURL a)"
  by (induction assets) (simp_all add: matches_keyword_iff)

lemma findChartAsset_first_keyword_match:
  assumes "\<exists>a \<in> set (Assets rel). Contains (ToLower (GetName a)) ''chart''"
  shows "\<exists>a. find (\<lambda>a. list_ex (Contains (ToLower (GetName a))) chart_keywords) (Assets rel) = Some a
             \<and> findChartAsset rel = GetBrowserDownloadURL a"
proof -
  from assms obtain b where b: "b \<in> set (Assets rel)" "Contains (ToLower (GetName b)) ''chart''"
    by blast
  then have "list_ex (Contains (ToLower (GetName b))) chart_keywords"
    by (simp add: chart_keywords_def)
  with b(1) have "find (\<lambda>a. list_ex (Contains (ToLower (GetName a))) chart_keywords) (Assets rel) \<noteq> None"
    by (auto simp: find_None_iff)
  then obtain a where
    "find (\<lambda>a. list_ex (Contains (ToLower (GetName a))) chart_keywords) (Assets rel) = Some a"
    by auto
  then show ?thesis
    by (simp add: findChartAsset_def findChartAsset_loop_find)
qed

section \<open>Facts about the scripts\<close>

lemma find_helm_chart_asset_fallback:
  assumes "head_n1 (jq_chart_urls p1) = [] \<or> head_n1 (jq_chart_urls p1) = ''null''"
    and "jq_tag_name p1 \<noteq> []" and "jq_tag_name p1 \<noteq> ''null''"
  shows "find_helm_chart_asset p1 p2 p3 =
           Inr (''https://github.com/'' @ raw p1 @ ''/'' @ p2 @ ''/archive/refs/tags/'' @
                jq_tag_name p1 @ ''.tar.gz'')"
  using assms by (auto simp add: find_helm_chart_asset_def Let_def)

text \<open>
  C1. The specification has the fallback address, used when no asset matches, built
  from the configured owner and project. \<^verbatim>\<open>find_helm_chart_asset\<close> is called with the document,
  the owner and the repository, and builds the address from its first two arguments: for
  \<^verbatim>\<open>acme/widget\<close>, the tag \<^verbatim>\<open>v2.3.1\<close> and no assets, the address holds the text of
  the release document where the owner should be and the owner where the project should
  be; it is not the address the specification gives. In the second script \<^verbatim>\<open>get_download_url\<close>
  takes the repository from the document (here a fork) and fails when the document names
  none.
\<close>

theorem find_helm_chart_asset_fallback_by_position:
  "find_helm_chart_asset no_assets_release ''acme'' ''widget'' =
     Inr (''https://github.com/'' @ raw no_assets_release @
          ''/acme/archive/refs/tags/v2.3.1.tar.gz'') \<and>
   find_helm_chart_asset no_assets_release ''acme'' ''widget'' \<noteq>
     Inr ''https://github.com/acme/widget/archive/refs/tags/v2.3.1.tar.gz'' \<and>
   get_download_url forked_release ''acme/widget'' =
     Inr ''https://github.com/fork/widget/archive/refs/tags/v2.3.1.tar.gz'' \<and>
   get_download_url no_assets_release ''acme/widget'' = Inl Cannot_determine_repository_name"
  by code_simp

text \<open>
  C2. The specification has the address of the first asset returned whose name contains
  one of the keywords \<^verbatim>\<open>helm\<close>, \<^verbatim>\<open>chart\<close>, \<^verbatim>\<open>.tgz\<close>, \<^verbatim>\<open>tar.gz\<close>. For a release whose
  first asset is \<^verbatim>\<open>checksums-tgz.txt\<close> and whose second asset is \<^verbatim>\<open>widget-chart.zip\<close>,
  \<^verbatim>\<open>find_helm_chart_asset\<close> returns the address of the first asset, whose name contains
  none of the keywords (its regular expression reads \<^verbatim>\<open>tgz\<close> for \<^verbatim>\<open>.tgz\<close>), while the
  second asset contains \<^verbatim>\<open>chart\<close> and \<^verbatim>\<open>findChartAsset\<close> of the command-line tool
  returns its address.
\<close>

theorem find_helm_chart_asset_regex_without_dot:
  "find_helm_chart_asset checksums_first_release ''acme'' ''widget'' =
     Inr ''https://x/checksums-tgz.txt'' \<and>
   matches_keyword ''checksums-tgz.txt'' asset_keywords = False \<and>
   Contains (ToLower ''widget-chart.zip'') ''chart'' \<and>
   findChartAsset checksums_first_RepositoryRelease = ''https://x/widget-chart.zip''"
  by code_simp








lemma main_loop_first:
  "main_loop net out_dir (upstream # rest) 0 0 [] fs =
     Inl (1, [upstream],
          snd (process_upstream net out_dir (fst (read_owner_repo upstream))
                 (snd (read_owner_repo upstream)) fs))"
  by (simp add: post_increment_def split: prod.splits sum.splits)

lemma main_stops_after_first_upstream:
  "exit_status (main net out_dir True values_updated fs) = 1 \<and>
   processed (main net out_dir True values_updated fs) = [''envoyproxy/gateway''] \<and>
   summary (main net out_dir True values_updated fs) = None"
  by (simp add: main_def upstreams_sh_def main_loop_first del: main_loop.simps)

lemma main_2_loop_first:
  "main_2_loop net output_dir (owner_repo # rest) 0 0 0 [] fs =
     Inl (1, [owner_repo], snd (process_repo net output_dir owner_repo fs))"
  by (simp add: post_increment_def split: prod.splits sum.splits)

lemma main_2_stops_after_first_repo:
  "exit_status (main_2 net output_dir True fs) = 1 \<and>
   processed (main_2 net output_dir True fs) = [''envoyproxy/gateway''] \<and>
   summary (main_2 net output_dir True fs) = None"
  by (simp add: main_2_def REPOS_def main_2_loop_first del: main_2_loop.simps)

text \<open>
  C4. The specification has a run in which one upstream succeeds and the lookup of
  another fails process every upstream and report one success and one failure. When
  \<^verbatim>\<open>envoyproxy/gateway\<close> succeeds and the lookup of \<^verbatim>\<open>envoyproxy/ai-gateway-helm\<close>
  answers 404, and also when it is the lookup of \<^verbatim>\<open>envoyproxy/gateway\<close> that answers 404
  and the other upstreams succeed, both scripts end with status 1 right after the first
  upstream, before the second one is looked at and without a summary: the increment of a
  counter that is 0 has the exit status 1, which under \<^verbatim>\<open>set -e\<close> ends the script.
\<close>

theorem main_stops_at_first_counter:
  "fst (process_upstream helm_chart_not_found ''/out'' ''envoyproxy'' ''gateway'' no_files) =
     Inr ''/out/envoyproxy-gateway-v1.0.0.tgz'' \<and>
   fst (process_upstream helm_chart_not_found ''/out'' ''envoyproxy'' ''ai-gateway-helm'' no_files) =
     Inl Could_not_determine_download_URL \<and>
   exit_status (main helm_chart_not_found ''/out'' True True no_files) = 1 \<and>
   processed (main helm_chart_not_found ''/out'' True True no_files) = [''envoyproxy/gateway''] \<and>
   summary (main helm_chart_not_found ''/out'' True True no_files) = None \<and>
   exit_status (main_2 helm_chart_not_found_2 ''/out'' True no_files) = 1 \<and>
   processed (main_2 helm_chart_not_found_2 ''/out'' True no_files) = [''envoyproxy/gateway''] \<and>
   summary (main_2 helm_chart_not_found_2 ''/out'' True no_files) = None \<and>
   fst (process_upstream gateway_not_found ''/out'' ''envoyproxy'' ''gateway'' no_files) =
     Inl Could_not_determine_download_URL \<and>
   fst (process_upstream gateway_not_found ''/out'' ''envoyproxy'' ''ai-gateway-helm'' no_files) =
     Inr ''/out/envoyproxy-ai-gateway-helm-v1.0.0.tgz'' \<and>
   exit_status (main gateway_not_found ''/out'' True True no_files) = 1 \<and>
   processed (main gateway_not_found ''/out'' True True no_files) = [''envoyproxy/gateway''] \<and>
   summary (main gateway_not_found ''/out'' True True no_files) = None \<and>
   exit_status (main_2 gateway_not_found_2 ''/out'' True no_files) = 1 \<and>
   processed (main_2 gateway_not_found_2 ''/out'' True no_files) = [''envoyproxy/gateway''] \<and>
   summary (main_2 gateway_not_found_2 ''/out'' True no_files) = None"
  by code_simp
















end
